theory Spec2Isabelle
  imports Complex_Main "HOL-Library.AList"
begin

section \<open>Data model of the client (client/src/utils/api.ts)\<close>

text \<open>
  The TypeScript interfaces become records. Isabelle record fields live in one name
  space, so a field name that several interfaces share keeps the source's name in one
  record and gets a short prefix in the others (\<open>legacy_name\<close> for \<open>NPCLegacy.name\<close>,
  \<open>opt_next_scene\<close> for \<open>DialogueOption.next_scene\<close>, and so on). An optional
  property (\<open>avatar?: string\<close>) is an \<open>option\<close>; JavaScript strings are \<open>string\<close>.
\<close>

record NPC =
  name :: string
  trait :: string

record GameImages =
  avatar :: "string option"
  background :: "string option"
  npc_image :: "string option"

record GameData =
  setting :: string
  protagonist_role :: string
  objective :: string
  twist :: string
  npc :: NPC
  hook :: string
  quest_offer :: string
  choice_a :: string
  choice_b :: string
  challenge_intro :: string
  climax :: string
  ending_good :: string
  ending_bad :: string
  epilogue :: string
  images :: "GameImages option"

record GameResponse =
  resp_game_data :: GameData
  resp_prompt :: string

record DialogueOption =
  opt_text :: string
  opt_next_scene :: string

record NPCLegacy =
  legacy_name :: string
  legacy_description :: string
  portrait_prompt :: string

record SceneBase =
  scene_id :: string
  scene_type :: string
  title :: string
  description :: string

record AvatarScene = SceneBase +
  avatar_prompt :: string
  next_scene :: string

record DialogueScene = SceneBase +
  dlg_background_prompt :: string
  dlg_npc :: "NPCLegacy option"
  dialogue_text :: string
  options :: "DialogueOption list"

record ObstacleRunScene = SceneBase +
  run_background_prompt :: string
  obstacle_prompt :: string
  difficulty :: int
  success_scene :: string
  failure_scene :: string

record ConclusionScene = SceneBase +
  end_background_prompt :: string
  conclusion_text :: string
  is_good_ending :: bool
  end_next_scene :: "string option"

text \<open>\<open>type Scene = AvatarScene | DialogueScene | ObstacleRunScene | ConclusionScene\<close>\<close>

datatype Scene =
  Avatar AvatarScene
| Dialogue DialogueScene
| ObstacleRun ObstacleRunScene
| Conclusion ConclusionScene

text \<open>
  \<open>Record<string, Scene>\<close>: a JavaScript object used as a dictionary. It is an
  association list in insertion order; \<open>scenes[k] = v\<close> is \<^const>\<open>AList.update\<close>
  (replace in place, or append), and \<open>scenes[k]\<close> is \<^const>\<open>map_of\<close>.
\<close>

type_synonym 'v js_record = "(string \<times> 'v) list"

record SceneDSL =
  scenes :: "Scene js_record"
  initial_scene :: string
  game_title :: string
  game_description :: string

text \<open>
  \<open>LegacyGameResponse\<close>, with the untyped \<open>game_data\<close> property that
  \<open>convertToSceneStructure\<close> attaches and that the scenes read back through
  \<open>(this.gameData as any).game_data\<close>; it is absent on a response built elsewhere.
\<close>

record LegacyGameResponse =
  scene_dsl :: SceneDSL
  prompt :: string
  game_data :: "GameData option"

section \<open>convertToSceneStructure\<close>

definition nl :: string where
  "nl = [CHR 0x0A]"

definition style_suffix :: string where
  "style_suffix = '', pixel art style, 8-color palette, 2px outline, flat shading''"

definition avatarScene :: "GameData \<Rightarrow> AvatarScene" where
  "avatarScene gameData =
     \<lparr> scene_id = ''avatar_creation'',
       scene_type = ''avatar'',
       title = ''Create Your Hero'',
       description = ''You are a '' @ protagonist_role gameData @ '' in '' @ setting gameData,
       avatar_prompt = ''A '' @ protagonist_role gameData @ '' character in '' @ setting gameData
                         @ style_suffix,
       next_scene = ''quest_start'' \<rparr>"

definition questScene :: "GameData \<Rightarrow> DialogueScene" where
  "questScene gameData =
     \<lparr> scene_id = ''quest_start'',
       scene_type = ''dialogue'',
       title = ''The Quest Begins'',
       description = hook gameData,
       dlg_background_prompt = setting gameData @ '' background scene'' @ style_suffix,
       dlg_npc = Some
         \<lparr> legacy_name = name (npc gameData),
           legacy_description = ''A '' @ trait (npc gameData) @ '' character'',
           portrait_prompt = name (npc gameData) @ '', a '' @ trait (npc gameData)
             @ '' character, pixel art portrait, 8-color palette, 2px outline, flat shading'' \<rparr>,
       dialogue_text = quest_offer gameData,
       options =
         [ \<lparr> opt_text = choice_a gameData, opt_next_scene = ''challenge_a'' \<rparr>,
           \<lparr> opt_text = choice_b gameData, opt_next_scene = ''challenge_b'' \<rparr> ] \<rparr>"

definition challengeScene :: "GameData \<Rightarrow> ObstacleRunScene" where
  "challengeScene gameData =
     \<lparr> scene_id = ''challenge_a'',
       scene_type = ''obstacle_run'',
       title = ''The Challenge'',
       description = challenge_intro gameData,
       run_background_prompt = setting gameData @ '' challenge area'' @ style_suffix,
       obstacle_prompt = ''Obstacles in '' @ setting gameData @ style_suffix,
       difficulty = 3,
       success_scene = ''good_ending'',
       failure_scene = ''bad_ending'' \<rparr>"

definition challengeSceneB :: "GameData \<Rightarrow> ObstacleRunScene" where
  "challengeSceneB gameData =
     \<lparr> scene_id = ''challenge_b'',
       scene_type = ''obstacle_run'',
       title = ''The Alternative Path'',
       description = challenge_intro gameData,
       run_background_prompt = setting gameData @ '' alternative path'' @ style_suffix,
       obstacle_prompt = ''Different obstacles in '' @ setting gameData @ style_suffix,
       difficulty = 2,
       success_scene = ''good_ending'',
       failure_scene = ''bad_ending'' \<rparr>"

definition goodEnding :: "GameData \<Rightarrow> ConclusionScene" where
  "goodEnding gameData =
     \<lparr> scene_id = ''good_ending'',
       scene_type = ''conclusion'',
       title = ''Victory!'',
       description = ending_good gameData,
       end_background_prompt = ''Victory scene in '' @ setting gameData @ style_suffix,
       conclusion_text = climax gameData @ nl @ nl @ ending_good gameData @ nl @ nl
                           @ epilogue gameData,
       is_good_ending = True,
       end_next_scene = None \<rparr>"

definition badEnding :: "GameData \<Rightarrow> ConclusionScene" where
  "badEnding gameData =
     \<lparr> scene_id = ''bad_ending'',
       scene_type = ''conclusion'',
       title = ''Defeat'',
       description = ending_bad gameData,
       end_background_prompt = ''Defeat scene in '' @ setting gameData @ style_suffix,
       conclusion_text = climax gameData @ nl @ nl @ ending_bad gameData,
       is_good_ending = False,
       end_next_scene = None \<rparr>"

text \<open>The six assignments \<open>scenes['...'] = ...\<close>, in the source's order, on \<open>{}\<close>.\<close>

definition build_scenes :: "GameData \<Rightarrow> Scene js_record" where
  "build_scenes gameData =
     AList.update ''bad_ending'' (Conclusion (badEnding gameData))
      (AList.update ''good_ending'' (Conclusion (goodEnding gameData))
       (AList.update ''challenge_b'' (ObstacleRun (challengeSceneB gameData))
        (AList.update ''challenge_a'' (ObstacleRun (challengeScene gameData))
         (AList.update ''quest_start'' (Dialogue (questScene gameData))
          (AList.update ''avatar_creation'' (Avatar (avatarScene gameData)) [])))))"

definition convertToSceneStructure :: "GameData \<Rightarrow> string \<Rightarrow> LegacyGameResponse" where
  "convertToSceneStructure gameData p =
     \<lparr> scene_dsl =
         \<lparr> scenes = build_scenes gameData,
           initial_scene = ''avatar_creation'',
           game_title = protagonist_role gameData @ '' of '' @ setting gameData,
           game_description = objective gameData @ '' - '' @ hook gameData \<rparr>,
       prompt = p,
       game_data = Some gameData \<rparr>"

text \<open>The keys of a dictionary object, in enumeration order (\<open>Object.keys\<close>).\<close>

definition keys :: "'v js_record \<Rightarrow> string list" where
  "keys obj = map fst obj"

section \<open>Transition references and the scene state machine\<close>

text \<open>
  The transition references a scene record carries: the avatar scene's \<open>next_scene\<close>,
  the \<open>next_scene\<close> of every dialogue option, an obstacle run's \<open>success_scene\<close> and
  \<open>failure_scene\<close>, and a conclusion's optional \<open>next_scene\<close> when it is set.
\<close>

fun scene_refs :: "Scene \<Rightarrow> string list" where
  "scene_refs (Avatar s) = [next_scene s]"
| "scene_refs (Dialogue s) = map opt_next_scene (options s)"
| "scene_refs (ObstacleRun s) = [success_scene s, failure_scene s]"
| "scene_refs (Conclusion s) = (case end_next_scene s of None \<Rightarrow> [] | Some n \<Rightarrow> [n])"

text \<open>The dangling-reference invariant: every reference of every scene is a key.\<close>

definition no_dangling :: "SceneDSL \<Rightarrow> bool" where
  "no_dangling dsl =
     list_all (\<lambda>(k, s). list_all (\<lambda>r. r \<in> set (keys (scenes dsl))) (scene_refs s))
       (scenes dsl)"

text \<open>The scene ids a walk along the references can visit from the initial scene.\<close>

inductive dsl_reachable :: "SceneDSL \<Rightarrow> string \<Rightarrow> bool" for dsl :: SceneDSL where
  start: "dsl_reachable dsl (initial_scene dsl)"
| edge: "dsl_reachable dsl k \<Longrightarrow> map_of (scenes dsl) k = Some s \<Longrightarrow> r \<in> set (scene_refs s)
           \<Longrightarrow> dsl_reachable dsl r"

text \<open>
  \<open>navigateToScene\<close> (the same \<open>switch\<close> in \<open>DynamicScene\<close> and \<open>ObstacleRunScene\<close>):
  the Phaser scene that is started for a scene id, with the id passed on as \<open>sceneId\<close>.
\<close>

definition navigateToScene :: "string \<Rightarrow> string \<times> string" where
  "navigateToScene sceneId =
     (if sceneId = ''avatar_creation'' \<or> sceneId = ''quest_start''
        then (''DynamicScene'', sceneId)
      else if sceneId = ''challenge_a'' \<or> sceneId = ''challenge_b''
        then (''ObstacleRunScene'', sceneId)
      else if sceneId = ''good_ending'' \<or> sceneId = ''bad_ending''
        then (''ConclusionScene'', sceneId)
      else (''DynamicScene'', sceneId))"

text \<open>
  What the player is looking at: the title screen, or a Phaser scene showing a scene id.
  The buttons the scenes create are the actions.
\<close>

datatype screen = Title | Showing string string

datatype action = BeginAdventure | Continue | ChooseA | ChooseB | Succeed | Fail | PlayAgain

text \<open>
  \<open>ObstacleRunScene\<close> reads \<open>sceneDSL.scenes[this.currentSceneId]\<close> and rejects a
  missing scene or one whose \<open>scene_type\<close> is not \<open>'obstacle_run'\<close>.
\<close>

definition obstacle_scene :: "LegacyGameResponse \<Rightarrow> string \<Rightarrow> ObstacleRunScene option" where
  "obstacle_scene gameData sceneId =
     (case map_of (scenes (scene_dsl gameData)) sceneId of
        Some (ObstacleRun scene) \<Rightarrow>
          if scene_type scene = ''obstacle_run'' then Some scene else None
      | _ \<Rightarrow> None)"

text \<open>
  \<open>this.scene.start(key, { sceneId, gameData })\<close> followed by the started scene's
  \<open>create()\<close> guards: an empty scene id, or an obstacle run without its scene record,
  falls back to the title scene.
\<close>

definition scene_start :: "LegacyGameResponse \<Rightarrow> string \<times> string \<Rightarrow> screen" where
  "scene_start gameData target =
     (case target of (key, sceneId) \<Rightarrow>
        if sceneId = [] then Title
        else if key = ''DynamicScene'' \<or> key = ''ConclusionScene'' then Showing key sceneId
        else if key = ''ObstacleRunScene'' then
          (case obstacle_scene gameData sceneId of
             Some scene \<Rightarrow> Showing key sceneId
           | None \<Rightarrow> Title)
        else Title)"

text \<open>
  One button press. \<open>TitleScene.startAdventure\<close> starts the initial scene;
  \<open>DynamicScene\<close> renders by scene id (avatar: continue to \<open>quest_start\<close>; dialogue: the
  two choice buttons, created only when the preserved game data is there; any other id:
  continue to \<open>quest_start\<close>); \<open>ObstacleRunScene\<close> follows the scene record's
  \<open>success_scene\<close> and \<open>failure_scene\<close>; \<open>ConclusionScene\<close> goes back to the title.
  A button the screen does not have leaves the screen as it is.
\<close>

fun step :: "LegacyGameResponse \<Rightarrow> screen \<Rightarrow> action \<Rightarrow> screen" where
  "step gameData Title BeginAdventure =
     scene_start gameData (''DynamicScene'', initial_scene (scene_dsl gameData))"
| "step gameData (Showing key sceneId) a =
     (if key = ''DynamicScene'' then
        (if sceneId = ''avatar_creation'' then
           (if a = Continue then scene_start gameData (navigateToScene ''quest_start'')
            else Showing key sceneId)
         else if sceneId = ''quest_start'' then
           (if a = ChooseA \<and> game_data gameData \<noteq> None
              then scene_start gameData (navigateToScene ''challenge_a'')
            else if a = ChooseB \<and> game_data gameData \<noteq> None
              then scene_start gameData (navigateToScene ''challenge_b'')
            else Showing key sceneId)
         else
           (if a = Continue then scene_start gameData (navigateToScene ''quest_start'')
            else Showing key sceneId))
      else if key = ''ObstacleRunScene'' then
        (case obstacle_scene gameData sceneId of
           Some scene \<Rightarrow>
             if a = Succeed then scene_start gameData (navigateToScene (success_scene scene))
             else if a = Fail then scene_start gameData (navigateToScene (failure_scene scene))
             else Showing key sceneId
         | None \<Rightarrow> Showing key sceneId)
      else if key = ''ConclusionScene'' then
        (if a = PlayAgain then Title else Showing key sceneId)
      else Showing key sceneId)"
| "step gameData Title a = Title"

definition playthrough :: "LegacyGameResponse \<Rightarrow> action list \<Rightarrow> screen" where
  "playthrough gameData acts = foldl (step gameData) Title acts"

fun in_mapping :: "LegacyGameResponse \<Rightarrow> screen \<Rightarrow> bool" where
  "in_mapping gameData Title = True"
| "in_mapping gameData (Showing key sceneId) =
     (sceneId \<in> set (keys (scenes (scene_dsl gameData))))"

text \<open>The screens of the fixed six-scene walk.\<close>

definition on_track :: "screen \<Rightarrow> bool" where
  "on_track sc =
     (sc = Title
      \<or> sc = Showing ''DynamicScene'' ''avatar_creation''
      \<or> sc = Showing ''DynamicScene'' ''quest_start''
      \<or> sc = Showing ''ObstacleRunScene'' ''challenge_a''
      \<or> sc = Showing ''ObstacleRunScene'' ''challenge_b''
      \<or> sc = Showing ''ConclusionScene'' ''good_ending''
      \<or> sc = Showing ''ConclusionScene'' ''bad_ending'')"

text \<open>A sample input: the knight of the haunted forest.\<close>

definition knight_images :: GameImages where
  "knight_images =
     \<lparr> avatar = Some ''assets/avatar_8bff5423.png'',
       background = Some ''assets/background_4fd22bdd.png'',
       npc_image = Some ''assets/npc_0f9ce796.png'' \<rparr>"

definition knight_game :: GameData where
  "knight_game =
     \<lparr> setting = ''a haunted forest'',
       protagonist_role = ''brave knight'',
       objective = ''Lift the curse'',
       twist = ''The ghost is your ancestor'',
       npc = \<lparr> name = ''Elder Rowan'', trait = ''wise'' \<rparr>,
       hook = ''A cold wind calls you'',
       quest_offer = ''Will you enter the forest?'',
       choice_a = ''Take the old road'',
       choice_b = ''Cut through the marsh'',
       challenge_intro = ''Roots snap at your feet'',
       climax = ''The ghost rises.'',
       ending_good = ''The curse is lifted.'',
       ending_bad = ''The forest keeps you.'',
       epilogue = ''Dawn returns.'',
       images = Some knight_images \<rparr>"

definition knight_prompt :: string where
  "knight_prompt = ''A brave knight explores a haunted forest''"

section \<open>AssetLoader (client/src/utils/assetLoader.ts)\<close>

text \<open>
  A thrown JavaScript value. \<open>Promise\<close>-returning and throwing functions return
  \<open>js_error + 'a\<close>, with \<open>Inl\<close> for the rejection.
\<close>

datatype js_error = Error string | TypeError string | URIError string | NetworkError string

datatype AssetType = IMAGE | AUDIO | SPRITESHEET

text \<open>Phaser's frame configuration is opaque here; only its presence is tested.\<close>

typedecl ImageFrameConfig

record AssetInfo =
  key :: string
  asset_type :: AssetType
  url :: "string option"
  asset_prompt :: "string option"
  frameConfig :: "ImageFrameConfig option"
  loaded :: bool

text \<open>
  A JavaScript \<open>Map\<close> with string keys: insertion order, \<open>set\<close> replaces in place.
\<close>

type_synonym 'v js_map = "(string \<times> 'v) list"

record AssetLoader =
  assets :: "AssetInfo js_map"
  generatedAssets :: "string js_map"

definition new_AssetLoader :: AssetLoader where
  "new_AssetLoader = \<lparr> assets = [], generatedAssets = [] \<rparr>"

text \<open>JavaScript truthiness of an optional string: defined and not empty.\<close>

fun truthy :: "string option \<Rightarrow> bool" where
  "truthy None = False"
| "truthy (Some s) = (s \<noteq> [])"

definition queueAsset ::
  "string \<Rightarrow> AssetType \<Rightarrow> string \<Rightarrow> ImageFrameConfig option \<Rightarrow> AssetLoader \<Rightarrow> AssetLoader" where
  "queueAsset k t p fc L =
     L\<lparr> assets := AList.update k
           \<lparr> key = k, asset_type = t, url = None, asset_prompt = Some p,
             frameConfig = fc, loaded = False \<rparr> (assets L) \<rparr>"

definition queueAssetWithURL ::
  "string \<Rightarrow> AssetType \<Rightarrow> string \<Rightarrow> ImageFrameConfig option \<Rightarrow> AssetLoader \<Rightarrow> AssetLoader" where
  "queueAssetWithURL k t u fc L =
     L\<lparr> assets := AList.update k
           \<lparr> key = k, asset_type = t, url = Some u, asset_prompt = None,
             frameConfig = fc, loaded = False \<rparr> (assets L) \<rparr>"

text \<open>
  \<open>generateImage\<close> (api.ts) builds a placeholder URL from the encoded prompt. The
  built-in \<open>encodeURIComponent\<close> is a parameter: it throws \<open>URIError\<close> on a string
  with a lone surrogate, and the \<open>async\<close> function then rejects.
\<close>

definition generateImage :: "(string \<Rightarrow> js_error + string) \<Rightarrow> string \<Rightarrow> js_error + string" where
  "generateImage encodeURIComponent p =
     (case encodeURIComponent p of
        Inl e \<Rightarrow> Inl e
      | Inr encoded \<Rightarrow> Inr (''https://via.placeholder.com/400x400?text='' @ encoded))"

text \<open>
  \<open>generateAsset\<close>: the \<open>try\<close> stores the generated URL, the \<open>catch\<close> stores the
  fallback URL built from the key. The image generator is a parameter
  (\<open>generateImage encodeURIComponent\<close> in the program).
\<close>

definition generateAsset ::
  "(string \<Rightarrow> js_error + string) \<Rightarrow> string \<Rightarrow> string \<Rightarrow> AssetLoader \<Rightarrow> js_error + AssetLoader" where
  "generateAsset gen k p L =
     (case gen p of
        Inr u \<Rightarrow> Inr (L\<lparr> generatedAssets := AList.update k u (generatedAssets L) \<rparr>)
      | Inl error \<Rightarrow>
          Inr (L\<lparr> generatedAssets :=
                 AList.update k (''https://via.placeholder.com/400x400?text=Failed+to+generate+'' @ k)
                   (generatedAssets L) \<rparr>))"

text \<open>
  \<open>loadAll\<close>, first loop: the \<open>generateAsset(key, asset.prompt)\<close> calls, one for each
  asset with a truthy prompt that is not loaded yet.
\<close>

fun generation_requests :: "AssetInfo js_map \<Rightarrow> (string \<times> string) list" where
  "generation_requests [] = []"
| "generation_requests ((k, asset) # rest) =
     (case asset_prompt asset of
        Some p \<Rightarrow>
          if p \<noteq> [] \<and> \<not> loaded asset then (k, p) # generation_requests rest
          else generation_requests rest
      | None \<Rightarrow> generation_requests rest)"

text \<open>\<open>await Promise.all(generationPromises)\<close>: rejects if one of the calls rejects.\<close>

fun generate_all ::
  "(string \<Rightarrow> js_error + string) \<Rightarrow> (string \<times> string) list \<Rightarrow> AssetLoader \<Rightarrow> js_error + AssetLoader" where
  "generate_all gen [] L = Inr L"
| "generate_all gen ((k, p) # rest) L =
     (case generateAsset gen k p L of
        Inl e \<Rightarrow> Inl e
      | Inr L' \<Rightarrow> generate_all gen rest L')"

text \<open>
  \<open>loadAll\<close>, second loop: the Phaser loader calls. \<open>asset.url || generatedAssets.get(key)\<close>
  takes the asset's URL when it is truthy and the generated one otherwise. The wait for
  Phaser's \<open>complete\<close> event that follows is not part of the model.
\<close>

datatype load_call =
  LoadImage string string
| LoadAudio string string
| LoadSpritesheet string string ImageFrameConfig

definition url_to_load :: "AssetLoader \<Rightarrow> string \<Rightarrow> AssetInfo \<Rightarrow> string option" where
  "url_to_load L k asset =
     (if truthy (url asset) then url asset else map_of (generatedAssets L) k)"

fun load_requests :: "AssetLoader \<Rightarrow> AssetInfo js_map \<Rightarrow> load_call list" where
  "load_requests L [] = []"
| "load_requests L ((k, asset) # rest) =
     (if \<not> loaded asset then
        (case url_to_load L k asset of
           Some u \<Rightarrow>
             if u \<noteq> [] then
               (case asset_type asset of
                  IMAGE \<Rightarrow> LoadImage k u # load_requests L rest
                | AUDIO \<Rightarrow> LoadAudio k u # load_requests L rest
                | SPRITESHEET \<Rightarrow>
                    (case frameConfig asset of
                       Some fc \<Rightarrow> LoadSpritesheet k u fc # load_requests L rest
                     | None \<Rightarrow> load_requests L rest))
             else load_requests L rest
         | None \<Rightarrow> load_requests L rest)
      else load_requests L rest)"

definition loadAll ::
  "(string \<Rightarrow> js_error + string) \<Rightarrow> AssetLoader \<Rightarrow> js_error + (AssetLoader \<times> load_call list)" where
  "loadAll gen L =
     (case generate_all gen (generation_requests (assets L)) L of
        Inl e \<Rightarrow> Inl e
      | Inr L' \<Rightarrow> Inr (L', load_requests L' (assets L')))"


definition isLoaded :: "AssetLoader \<Rightarrow> string \<Rightarrow> bool" where
  "isLoaded L k = (case map_of (assets L) k of Some asset \<Rightarrow> loaded asset | None \<Rightarrow> False)"



text \<open>The key has a non-empty generated URL.\<close>

definition has_url :: "AssetLoader \<Rightarrow> string \<Rightarrow> bool" where
  "has_url L k = (\<exists>u. map_of (generatedAssets L) k = Some u \<and> u \<noteq> [])"


definition prompt_loader :: AssetLoader where
  "prompt_loader = queueAsset ''bg_challenge_a'' IMAGE ''forest'' None new_AssetLoader"

section \<open>Scene preloading (DynamicScene, ObstacleRunScene, ConclusionScene, BootScene)\<close>

text \<open>
  A \<open>preload\<close> method is modelled by the calls it makes on its asset loader, in order;
  \<open>run_calls\<close> replays them on a loader. \<open>init\<close> gives every scene a fresh
  \<open>new AssetLoader(this)\<close> before \<open>preload\<close> runs.
\<close>

datatype loader_call =
  QueueAsset string AssetType string
| QueueAssetWithURL string AssetType string

fun apply_call :: "AssetLoader \<Rightarrow> loader_call \<Rightarrow> AssetLoader" where
  "apply_call L (QueueAsset k t p) = queueAsset k t p None L"
| "apply_call L (QueueAssetWithURL k t u) = queueAssetWithURL k t u None L"

definition run_calls :: "loader_call list \<Rightarrow> AssetLoader \<Rightarrow> AssetLoader" where
  "run_calls calls L = foldl apply_call L calls"

text \<open>\<open>(this.gameData as any).game_data?.images\<close>\<close>

definition preserved_images :: "LegacyGameResponse \<Rightarrow> GameImages option" where
  "preserved_images gameData =
     (case game_data gameData of None \<Rightarrow> None | Some preservedGameData \<Rightarrow> images preservedGameData)"

text \<open>\<open>if (images.x) { this.assetLoader.queueAssetWithURL(key, AssetType.IMAGE, images.x) }\<close>\<close>

definition queue_image :: "string \<Rightarrow> string option \<Rightarrow> loader_call list" where
  "queue_image k u =
     (case u of
        Some v \<Rightarrow> if v \<noteq> [] then [QueueAssetWithURL k IMAGE v] else []
      | None \<Rightarrow> [])"

definition DynamicScene_preload ::
  "LegacyGameResponse option \<Rightarrow> string \<Rightarrow> AssetLoader option \<Rightarrow> loader_call list" where
  "DynamicScene_preload gameData currentSceneId assetLoader =
     (case gameData of
        None \<Rightarrow> []
      | Some gd \<Rightarrow>
          if currentSceneId = [] \<or> assetLoader = None then []
          else
            (case preserved_images gd of
               Some imgs \<Rightarrow>
                 queue_image ''avatar'' (avatar imgs)
                 @ queue_image ''background'' (background imgs)
                 @ queue_image ''npc'' (npc_image imgs)
             | None \<Rightarrow> []))"

definition ObstacleRunScene_preload ::
  "LegacyGameResponse option \<Rightarrow> string \<Rightarrow> AssetLoader option \<Rightarrow> loader_call list" where
  "ObstacleRunScene_preload gameData currentSceneId assetLoader =
     (case gameData of
        None \<Rightarrow> []
      | Some gd \<Rightarrow>
          if currentSceneId = [] \<or> assetLoader = None then []
          else
            (case obstacle_scene gd currentSceneId of
               None \<Rightarrow> []
             | Some scene \<Rightarrow>
                 (case preserved_images gd of
                    Some imgs \<Rightarrow>
                      queue_image (''bg_'' @ currentSceneId) (background imgs)
                      @ queue_image (''obstacle_'' @ currentSceneId) (avatar imgs)
                  | None \<Rightarrow>
                      [ QueueAsset (''bg_'' @ currentSceneId) IMAGE (run_background_prompt scene),
                        QueueAsset (''obstacle_'' @ currentSceneId) IMAGE (obstacle_prompt scene) ])))"

definition ConclusionScene_preload ::
  "LegacyGameResponse option \<Rightarrow> string \<Rightarrow> AssetLoader option \<Rightarrow> loader_call list" where
  "ConclusionScene_preload gameData currentSceneId assetLoader =
     (case gameData of
        None \<Rightarrow> []
      | Some gd \<Rightarrow>
          if currentSceneId = [] \<or> assetLoader = None then []
          else
            (case preserved_images gd of
               Some imgs \<Rightarrow>
                 queue_image ''background'' (background imgs)
                 @ queue_image ''avatar'' (avatar imgs)
             | None \<Rightarrow> []))"

text \<open>
  \<open>BootScene.queueAssetsForScene(sceneId, sceneDSL)\<close>, called from \<open>create\<close> when the
  game data and the loader are there; neither argument is read.
\<close>

definition queueAssetsForScene ::
  "LegacyGameResponse \<Rightarrow> string \<Rightarrow> AssetLoader option \<Rightarrow> loader_call list" where
  "queueAssetsForScene gameData sceneId assetLoader =
     (if assetLoader = None then []
      else
        (case preserved_images gameData of
           Some imgs \<Rightarrow>
             queue_image ''avatar'' (avatar imgs)
             @ queue_image ''background'' (background imgs)
             @ queue_image ''npc'' (npc_image imgs)
         | None \<Rightarrow> []))"

text \<open>A loader call that queues by URL, with a URL of the given image record.\<close>

fun url_from :: "GameImages \<Rightarrow> loader_call \<Rightarrow> bool" where
  "url_from imgs (QueueAssetWithURL k t u) =
     (t = IMAGE \<and> (avatar imgs = Some u \<or> background imgs = Some u \<or> npc_image imgs = Some u))"
| "url_from imgs (QueueAsset k t p) = False"

text \<open>
  The \<open>generateImage\<close> calls of a scene's \<open>create\<close>: \<open>loadAll\<close> on the fresh loader
  that \<open>preload\<close> filled calls \<open>generateAsset\<close>, and so \<open>generateImage\<close>, once for each
  generation request.
\<close>

definition generateImage_calls :: "loader_call list \<Rightarrow> string list" where
  "generateImage_calls calls =
     map snd (generation_requests (assets (run_calls calls new_AssetLoader)))"

section \<open>ConclusionScene.renderConclusionScene\<close>

text \<open>
  What a render adds to the display list. \<open>textures\<close> lists the keys for which
  \<open>this.textures.exists\<close> answers true.
\<close>

datatype game_object =
  ImageObj string
| RectangleObj int
| TextObj string

definition renderConclusionScene ::
  "LegacyGameResponse \<Rightarrow> string \<Rightarrow> string list \<Rightarrow> game_object list" where
  "renderConclusionScene gameData currentSceneId textures =
     (let isGoodEnding = (currentSceneId = ''good_ending'') in
        (if ''background'' \<in> set textures
           then [ImageObj ''background'', RectangleObj 0x000000]
           else [RectangleObj 0x111111])
        @ [TextObj (if isGoodEnding then ''Victory!'' else ''Defeat'')]
        @ (if isGoodEnding \<and> ''avatar'' \<in> set textures then [ImageObj ''avatar''] else [])
        @ (case game_data gameData of
             Some preservedGameData \<Rightarrow>
               [TextObj
                  (if isGoodEnding
                     then climax preservedGameData @ nl @ nl @ ending_good preservedGameData
                            @ nl @ nl @ epilogue preservedGameData
                     else climax preservedGameData @ nl @ nl @ ending_bad preservedGameData)]
           | None \<Rightarrow> [])
        @ [RectangleObj 0x4CAF50, TextObj ''Play Again''])"

text \<open>No queued asset carries a prompt.\<close>

definition no_prompts :: "AssetLoader \<Rightarrow> bool" where
  "no_prompts L = (\<forall>(k, asset) \<in> set (assets L). asset_prompt asset = None)"

text \<open>The converted sample game.\<close>

definition knight_response :: LegacyGameResponse where
  "knight_response = convertToSceneStructure knight_game knight_prompt"

definition empty_prompt_loader :: AssetLoader where
  "empty_prompt_loader = queueAsset ''bg_challenge_a'' IMAGE [] None new_AssetLoader"

section \<open>isScene and JavaScript values\<close>

text \<open>
  \<open>isScene(obj: any)\<close> accepts any JavaScript value. Numbers keep what truthiness
  needs (\<open>NaN\<close> and zero are falsy). An object or a function carries the properties
  that \<open>in\<close> and a property read see, own and inherited, as an association list; an
  array carries its elements.
\<close>

datatype js_number = NaN | PosInfinity | NegInfinity | Finite rat













section \<open>The page: generateGame, startGameGeneration and restart\<close>

text \<open>
  \<open>generateGame\<close>: whatever the \<open>try\<close> block throws is replaced by one fixed error.
  The backend call \<open>axios.post\<close> is a parameter that resolves with the response data or
  rejects.
\<close>

definition generateGame ::
  "(string \<Rightarrow> js_error + GameResponse) \<Rightarrow> string \<Rightarrow> js_error + LegacyGameResponse" where
  "generateGame post p =
     (case post p of
        Inl error \<Rightarrow> Inl (Error ''Failed to generate game. Please try again.'')
      | Inr response \<Rightarrow>
          Inr (convertToSceneStructure (resp_game_data response) (resp_prompt response)))"

text \<open>
  The text kept in \<open>localStorage\<close> under \<open>'gameData'\<close>: what \<open>JSON.stringify\<close> wrote for
  a game response, or something \<open>JSON.parse\<close> rejects.
\<close>

datatype json_text = Stringified LegacyGameResponse | Malformed string

fun JSON_parse :: "json_text \<Rightarrow> js_error + LegacyGameResponse" where
  "JSON_parse (Stringified g) = Inr g"
| "JSON_parse (Malformed s) = Inl (Error ''SyntaxError'')"

text \<open>
  The state of the page: the DOM elements of index.html that the code touches, the
  \<open>localStorage\<close> item, and the \<open>gameData\<close> fields of the Boot and Title scene objects,
  which Phaser keeps from one start of a scene to the next.
\<close>

record page =
  progress_width :: nat
  error_text :: string
  error_display :: string
  loading_display :: string
  prompt_display :: string
  stored_gameData :: "json_text option"
  game_created :: bool
  boot_gameData :: "LegacyGameResponse option"
  title_gameData :: "LegacyGameResponse option"
  shown :: screen

definition updateProgress :: "nat \<Rightarrow> page \<Rightarrow> page" where
  "updateProgress progress pg = pg\<lparr> progress_width := progress \<rparr>"

text \<open>
  \<open>init\<close> of the Boot and Title scenes, with \<open>data.gameData\<close> as an option: given data
  is stored (Boot also writes it to \<open>localStorage\<close>); otherwise the stored text is parsed,
  and a missing or unparsable text leaves the field as it was.
\<close>

definition BootScene_init :: "LegacyGameResponse option \<Rightarrow> page \<Rightarrow> page" where
  "BootScene_init data pg =
     (case data of
        Some gd \<Rightarrow> pg\<lparr> boot_gameData := Some gd, stored_gameData := Some (Stringified gd) \<rparr>
      | None \<Rightarrow>
          (case stored_gameData pg of
             Some storedData \<Rightarrow>
               (case JSON_parse storedData of
                  Inr gd \<Rightarrow> pg\<lparr> boot_gameData := Some gd \<rparr>
                | Inl e \<Rightarrow> pg)
           | None \<Rightarrow> pg))"

definition TitleScene_init :: "LegacyGameResponse option \<Rightarrow> page \<Rightarrow> page" where
  "TitleScene_init data pg =
     (case data of
        Some gd \<Rightarrow> pg\<lparr> title_gameData := Some gd \<rparr>
      | None \<Rightarrow>
          (case stored_gameData pg of
             Some storedData \<Rightarrow>
               (case JSON_parse storedData of
                  Inr gd \<Rightarrow> pg\<lparr> title_gameData := Some gd \<rparr>
                | Inl e \<Rightarrow> pg)
           | None \<Rightarrow> pg))"

text \<open>\<open>this.scene.start('TitleScene', data)\<close>: the title scene initialises and shows.\<close>

definition start_TitleScene :: "LegacyGameResponse option \<Rightarrow> page \<Rightarrow> page" where
  "start_TitleScene data pg = (TitleScene_init data pg)\<lparr> shown := Title \<rparr>"

text \<open>
  \<open>BootScene\<close>: \<open>init\<close>, then \<open>create\<close>, which hands its game data on to the title scene
  (the asset loading in between does not change the page).
\<close>

definition start_BootScene :: "LegacyGameResponse option \<Rightarrow> page \<Rightarrow> page" where
  "start_BootScene data pg =
     (let pg' = BootScene_init data pg in start_TitleScene (boot_gameData pg') pg')"

text \<open>
  \<open>startGameGeneration\<close>, with the timer callback of the success branch run: the
  loading screen is hidden and the Boot scene starts, in a new Phaser game when there
  is none yet (its Boot scene then gets no data and reads \<open>localStorage\<close>). The \<open>catch\<close>
  branch writes the failure message and shows the prompt again.
\<close>

definition startGameGeneration ::
  "(string \<Rightarrow> js_error + GameResponse) \<Rightarrow> string \<Rightarrow> page \<Rightarrow> page" where
  "startGameGeneration post p pg =
     (let pg1 = updateProgress 10 pg in
        case generateGame post p of
          Inr gameData \<Rightarrow>
            (let pg2 = updateProgress 50 pg1;
                 pg3 = pg2\<lparr> stored_gameData := Some (Stringified gameData) \<rparr>;
                 pg4 = updateProgress 90 pg3;
                 pg5 = pg4\<lparr> loading_display := ''none'' \<rparr>
             in if \<not> game_created pg5
                  then start_BootScene None (pg5\<lparr> game_created := True \<rparr>)
                else start_BootScene (Some gameData) pg5)
        | Inl error \<Rightarrow>
            pg1\<lparr> error_text := ''Failed to generate game. Please try again.'',
                 error_display := ''block'',
                 loading_display := ''none'',
                 prompt_display := ''flex'' \<rparr>)"

text \<open>
  The submit handler of the prompt form (index.html): hide the prompt, show the loading
  screen, start the generation.
\<close>

definition submit_prompt ::
  "(string \<Rightarrow> js_error + GameResponse) \<Rightarrow> string \<Rightarrow> page \<Rightarrow> page" where
  "submit_prompt post p pg =
     startGameGeneration post p (pg\<lparr> prompt_display := ''none'', loading_display := ''flex'' \<rparr>)"




text \<open>The page as index.html and the first, data-less start of the game leave it.\<close>

definition fresh_page :: page where
  "fresh_page =
     \<lparr> progress_width = 0, error_text = [], error_display = ''none'',
       loading_display = ''none'', prompt_display = ''flex'', stored_gameData = None,
       game_created = True, boot_gameData = None, title_gameData = None, shown = Title \<rparr>"


definition failing_backend :: "string \<Rightarrow> js_error + GameResponse" where
  "failing_backend p = Inl (NetworkError ''Request failed with status code 500'')"


section \<open>The procedural image generator, modelled from the spec\<close>

text \<open>
  The pixel-art generator (backend/app/services/image_generator.py) is not among the
  source files. This section follows the design's sections 3 and 4.2 to 4.4: a pixel
  buffer is a 64 by 64 grid of indexed colours; an archetype is an immutable bundle of
  palette and shape parameters. What the design leaves open (the coordinates of the
  fixed layout, the band boundaries, the placement of the features) is a parameter.
\<close>

type_synonym color = nat


datatype shape = Rect int int int int | Ellipse int int int int

record CharacterArchetype =
  archetype_id :: string
  palette :: "color list"
  outline_color :: color
  accessory_shape :: shape




















section \<open>The shape of the converted mapping\<close>

lemma build_scenes_unfold:
  "build_scenes gameData =
     [ (''avatar_creation'', Avatar (avatarScene gameData)),
       (''quest_start'', Dialogue (questScene gameData)),
       (''challenge_a'', ObstacleRun (challengeScene gameData)),
       (''challenge_b'', ObstacleRun (challengeSceneB gameData)),
       (''good_ending'', Conclusion (goodEnding gameData)),
       (''bad_ending'', Conclusion (badEnding gameData)) ]"
  by (simp add: build_scenes_def)

text \<open>
  Claim C2. For every game data and prompt the converted response's scene mapping has
  exactly the six keys avatar_creation, quest_start, challenge_a, challenge_b,
  good_ending and bad_ending (each once), and its initial scene is avatar_creation,
  which is one of those keys.
\<close>

theorem convert_six_scenes:
  "set (keys (scenes (scene_dsl (convertToSceneStructure gameData p)))) =
     {''avatar_creation'', ''quest_start'', ''challenge_a'', ''challenge_b'',
      ''good_ending'', ''bad_ending''}
   \<and> distinct (keys (scenes (scene_dsl (convertToSceneStructure gameData p))))
   \<and> length (keys (scenes (scene_dsl (convertToSceneStructure gameData p)))) = 6
   \<and> initial_scene (scene_dsl (convertToSceneStructure gameData p)) = ''avatar_creation''
   \<and> initial_scene (scene_dsl (convertToSceneStructure gameData p))
       \<in> set (keys (scenes (scene_dsl (convertToSceneStructure gameData p))))"
  by (simp add: convertToSceneStructure_def build_scenes_unfold keys_def)


section \<open>No dangling transition reference\<close>

lemma no_dangling_convert: "no_dangling (scene_dsl (convertToSceneStructure gameData p))"
  by (simp add: no_dangling_def convertToSceneStructure_def build_scenes_unfold keys_def
      avatarScene_def questScene_def challengeScene_def challengeSceneB_def goodEnding_def badEnding_def)

lemma map_of_build_scenes:
  "map_of (build_scenes gameData) =
     [''avatar_creation'' \<mapsto> Avatar (avatarScene gameData),
      ''quest_start'' \<mapsto> Dialogue (questScene gameData),
      ''challenge_a'' \<mapsto> ObstacleRun (challengeScene gameData),
      ''challenge_b'' \<mapsto> ObstacleRun (challengeSceneB gameData),
      ''good_ending'' \<mapsto> Conclusion (goodEnding gameData),
      ''bad_ending'' \<mapsto> Conclusion (badEnding gameData)]"
  by (auto simp add: build_scenes_unfold fun_eq_iff)

lemma no_dangling_reachable:
  assumes nd: "no_dangling dsl" and init: "initial_scene dsl \<in> set (keys (scenes dsl))"
  shows "dsl_reachable dsl k \<Longrightarrow> k \<in> set (keys (scenes dsl))"
proof (induction rule: dsl_reachable.induct)
  case start
  show ?case by (rule init)
next
  case (edge k s r)
  from edge.hyps(2) have "(k, s) \<in> set (scenes dsl)" by (rule map_of_SomeD)
  with nd edge.hyps(3) show ?case
    by (auto simp add: no_dangling_def list_all_iff)
qed


lemma obstacle_scene_convert:
  "obstacle_scene (convertToSceneStructure gameData p) ''challenge_a'' = Some (challengeScene gameData)"
  "obstacle_scene (convertToSceneStructure gameData p) ''challenge_b'' = Some (challengeSceneB gameData)"
  by (simp_all add: obstacle_scene_def convertToSceneStructure_def map_of_build_scenes
      challengeScene_def challengeSceneB_def)

lemma start_targets:
  "scene_start (convertToSceneStructure gameData p) (navigateToScene ''quest_start'')
     = Showing ''DynamicScene'' ''quest_start''"
  "scene_start (convertToSceneStructure gameData p) (navigateToScene ''challenge_a'')
     = Showing ''ObstacleRunScene'' ''challenge_a''"
  "scene_start (convertToSceneStructure gameData p) (navigateToScene ''challenge_b'')
     = Showing ''ObstacleRunScene'' ''challenge_b''"
  "scene_start (convertToSceneStructure gameData p) (navigateToScene ''good_ending'')
     = Showing ''ConclusionScene'' ''good_ending''"
  "scene_start (convertToSceneStructure gameData p) (navigateToScene ''bad_ending'')
     = Showing ''ConclusionScene'' ''bad_ending''"
  by (simp_all add: scene_start_def navigateToScene_def obstacle_scene_convert)

lemma start_initial:
  "scene_start (convertToSceneStructure gameData p)
     (''DynamicScene'', initial_scene (scene_dsl (convertToSceneStructure gameData p)))
     = Showing ''DynamicScene'' ''avatar_creation''"
  by (simp add: scene_start_def convertToSceneStructure_def)

lemma on_track_simps:
  "on_track Title"
  "on_track (Showing ''DynamicScene'' ''avatar_creation'')"
  "on_track (Showing ''DynamicScene'' ''quest_start'')"
  "on_track (Showing ''ObstacleRunScene'' ''challenge_a'')"
  "on_track (Showing ''ObstacleRunScene'' ''challenge_b'')"
  "on_track (Showing ''ConclusionScene'' ''good_ending'')"
  "on_track (Showing ''ConclusionScene'' ''bad_ending'')"
  by (simp_all add: on_track_def)

lemma challenge_targets:
  "success_scene (challengeScene gameData) = ''good_ending''"
  "success_scene (challengeSceneB gameData) = ''good_ending''"
  "failure_scene (challengeScene gameData) = ''bad_ending''"
  "failure_scene (challengeSceneB gameData) = ''bad_ending''"
  by (simp_all add: challengeScene_def challengeSceneB_def)

lemma step_Title_on_track:
  "on_track (step (convertToSceneStructure gameData p) Title a)"
  by (cases a) (simp_all add: start_initial on_track_simps)

lemma step_on_track:
  assumes "on_track sc"
  shows "on_track (step (convertToSceneStructure gameData p) sc a)"
proof -
  from assms have
    "sc = Title
      \<or> sc = Showing ''DynamicScene'' ''avatar_creation''
      \<or> sc = Showing ''DynamicScene'' ''quest_start''
      \<or> sc = Showing ''ObstacleRunScene'' ''challenge_a''
      \<or> sc = Showing ''ObstacleRunScene'' ''challenge_b''
      \<or> sc = Showing ''ConclusionScene'' ''good_ending''
      \<or> sc = Showing ''ConclusionScene'' ''bad_ending''"
    by (simp only: on_track_def)
  then show ?thesis
  proof (elim disjE)
    assume "sc = Title"
    then show ?thesis by (simp only: step_Title_on_track)
  qed (simp_all add: start_targets obstacle_scene_convert challenge_targets on_track_simps)
qed

lemma foldl_on_track:
  "on_track sc \<Longrightarrow> on_track (foldl (step (convertToSceneStructure gameData p)) sc acts)"
  by (induction acts arbitrary: sc) (simp_all add: step_on_track)

lemma on_track_in_mapping:
  assumes "on_track sc"
  shows "in_mapping (convertToSceneStructure gameData p) sc"
proof -
  have ks: "keys (scenes (scene_dsl (convertToSceneStructure gameData p))) =
      [''avatar_creation'', ''quest_start'', ''challenge_a'', ''challenge_b'',
       ''good_ending'', ''bad_ending'']"
    by (simp add: convertToSceneStructure_def build_scenes_unfold keys_def)
  from assms have
    "sc = Title
      \<or> sc = Showing ''DynamicScene'' ''avatar_creation''
      \<or> sc = Showing ''DynamicScene'' ''quest_start''
      \<or> sc = Showing ''ObstacleRunScene'' ''challenge_a''
      \<or> sc = Showing ''ObstacleRunScene'' ''challenge_b''
      \<or> sc = Showing ''ConclusionScene'' ''good_ending''
      \<or> sc = Showing ''ConclusionScene'' ''bad_ending''"
    by (simp only: on_track_def)
  then show ?thesis
    by (elim disjE) (simp_all add: ks)
qed

lemma convert_scene_refs:
  "map_option scene_refs (map_of (build_scenes gameData) ''avatar_creation'')
     = Some [''quest_start'']"
  "map_option scene_refs (map_of (build_scenes gameData) ''quest_start'')
     = Some [''challenge_a'', ''challenge_b'']"
  "map_option scene_refs (map_of (build_scenes gameData) ''challenge_a'')
     = Some [''good_ending'', ''bad_ending'']"
  "map_option scene_refs (map_of (build_scenes gameData) ''challenge_b'')
     = Some [''good_ending'', ''bad_ending'']"
  "map_option scene_refs (map_of (build_scenes gameData) ''good_ending'') = Some []"
  "map_option scene_refs (map_of (build_scenes gameData) ''bad_ending'') = Some []"
  by (simp_all add: build_scenes_unfold avatarScene_def questScene_def challengeScene_def
      challengeSceneB_def goodEnding_def badEnding_def)

lemma convert_initial_is_key:
  "initial_scene (scene_dsl (convertToSceneStructure gameData p))
     \<in> set (keys (scenes (scene_dsl (convertToSceneStructure gameData p))))"
  by (simp add: convertToSceneStructure_def build_scenes_unfold keys_def)

lemma good_ending_reachable:
  "dsl_reachable (scene_dsl (convertToSceneStructure gameData p)) ''good_ending''"
proof -
  let ?dsl = "scene_dsl (convertToSceneStructure gameData p)"
  have sc: "scenes ?dsl = build_scenes gameData"
    by (simp add: convertToSceneStructure_def)
  have "dsl_reachable ?dsl (initial_scene ?dsl)"
    by (rule dsl_reachable.start)
  then have r0: "dsl_reachable ?dsl ''avatar_creation''"
    by (simp add: convertToSceneStructure_def)
  have r1: "dsl_reachable ?dsl ''quest_start''"
    by (rule dsl_reachable.edge [OF r0, of "Avatar (avatarScene gameData)"])
      (simp_all add: sc map_of_build_scenes avatarScene_def)
  have r2: "dsl_reachable ?dsl ''challenge_a''"
    by (rule dsl_reachable.edge [OF r1, of "Dialogue (questScene gameData)"])
      (simp_all add: sc map_of_build_scenes questScene_def)
  show ?thesis
    by (rule dsl_reachable.edge [OF r2, of "ObstacleRun (challengeScene gameData)"])
      (simp_all add: sc map_of_build_scenes challengeScene_def)
qed

text \<open>
  Claim C1. For every game data, the converted scene graph has no dangling reference:
  every \<open>next_scene\<close>, option \<open>next_scene\<close>, \<open>success_scene\<close> and \<open>failure_scene\<close> names
  a key of the mapping. The edges are the fixed ones (avatar_creation to quest_start,
  quest_start to challenge_a and challenge_b, both challenges to good_ending on success
  and bad_ending on failure, the endings to nothing), every scene id reachable from the
  initial scene along them is a key, and whatever buttons the player presses, the scene
  the front end shows carries an id of the mapping.
\<close>

theorem convert_no_dangling:
  "no_dangling (scene_dsl (convertToSceneStructure gameData p))
   \<and> map (\<lambda>k. map_option scene_refs
                 (map_of (scenes (scene_dsl (convertToSceneStructure gameData p))) k))
        [''avatar_creation'', ''quest_start'', ''challenge_a'', ''challenge_b'',
         ''good_ending'', ''bad_ending'']
       = [Some [''quest_start''], Some [''challenge_a'', ''challenge_b''],
          Some [''good_ending'', ''bad_ending''], Some [''good_ending'', ''bad_ending''],
          Some [], Some []]
   \<and> (\<forall>k. dsl_reachable (scene_dsl (convertToSceneStructure gameData p)) k
          \<longrightarrow> k \<in> set (keys (scenes (scene_dsl (convertToSceneStructure gameData p)))))
   \<and> (\<forall>acts. in_mapping (convertToSceneStructure gameData p)
                 (playthrough (convertToSceneStructure gameData p) acts))"
proof (intro conjI allI impI)
  show "no_dangling (scene_dsl (convertToSceneStructure gameData p))"
    by (rule no_dangling_convert)
next
  have "scenes (scene_dsl (convertToSceneStructure gameData p)) = build_scenes gameData"
    by (simp add: convertToSceneStructure_def)
  then show "map (\<lambda>k. map_option scene_refs
                 (map_of (scenes (scene_dsl (convertToSceneStructure gameData p))) k))
        [''avatar_creation'', ''quest_start'', ''challenge_a'', ''challenge_b'',
         ''good_ending'', ''bad_ending'']
       = [Some [''quest_start''], Some [''challenge_a'', ''challenge_b''],
          Some [''good_ending'', ''bad_ending''], Some [''good_ending'', ''bad_ending''],
          Some [], Some []]"
    by (simp only: list.map convert_scene_refs)
next
  fix k
  assume "dsl_reachable (scene_dsl (convertToSceneStructure gameData p)) k"
  then show "k \<in> set (keys (scenes (scene_dsl (convertToSceneStructure gameData p))))"
    by (rule no_dangling_reachable [OF no_dangling_convert convert_initial_is_key])
next
  fix acts
  have "on_track (playthrough (convertToSceneStructure gameData p) acts)"
    unfolding playthrough_def by (rule foldl_on_track) (simp add: on_track_def)
  then show "in_mapping (convertToSceneStructure gameData p)
               (playthrough (convertToSceneStructure gameData p) acts)"
    by (rule on_track_in_mapping)
qed

theorem convert_no_dangling_witness:
  "no_dangling (scene_dsl (convertToSceneStructure knight_game knight_prompt))
   \<and> dsl_reachable (scene_dsl (convertToSceneStructure knight_game knight_prompt)) ''good_ending''
   \<and> ''good_ending''
        \<in> set (keys (scenes (scene_dsl (convertToSceneStructure knight_game knight_prompt))))
   \<and> in_mapping (convertToSceneStructure knight_game knight_prompt)
        (playthrough (convertToSceneStructure knight_game knight_prompt)
           [BeginAdventure, Continue, ChooseA, Succeed])"
  using convert_no_dangling [of knight_game knight_prompt]
    good_ending_reachable [of knight_game knight_prompt]
  by blast


section \<open>The asset loader\<close>






lemma generateImage_nonempty: "generateImage enc p = Inr u \<Longrightarrow> u \<noteq> []"
  by (auto simp add: generateImage_def split: sum.splits)

lemma generateAsset_cases:
  "generateAsset gen k p L =
     Inr (L\<lparr> generatedAssets := AList.update k
            (case gen p of Inr u \<Rightarrow> u
             | Inl e \<Rightarrow> ''https://via.placeholder.com/400x400?text=Failed+to+generate+'' @ k)
            (generatedAssets L) \<rparr>)"
  by (simp add: generateAsset_def split: sum.splits)

lemma generateAsset_has_url_own:
  "generateAsset (generateImage enc) k p L = Inr L' \<Longrightarrow> has_url L' k"
  by (auto simp add: generateAsset_cases has_url_def update_conv generateImage_nonempty
      split: sum.splits)

lemma generateAsset_has_url_keep:
  "generateAsset (generateImage enc) k p L = Inr L' \<Longrightarrow> has_url L j \<Longrightarrow> has_url L' j"
  by (auto simp add: generateAsset_cases has_url_def update_conv generateImage_nonempty
      split: sum.splits)

lemma generateAsset_assets:
  "generateAsset gen k p L = Inr L' \<Longrightarrow> assets L' = assets L"
  by (auto simp add: generateAsset_cases)

lemma generate_all_total: "\<exists>L'. generate_all gen reqs L = Inr L'"
proof (induction reqs arbitrary: L)
  case Nil
  show ?case by simp
next
  case (Cons r reqs)
  obtain k p where r: "r = (k, p)" by (cases r)
  show ?case using Cons.IH by (simp add: r generateAsset_cases)
qed

lemma generate_all_assets:
  "generate_all gen reqs L = Inr L' \<Longrightarrow> assets L' = assets L"
proof (induction reqs arbitrary: L)
  case Nil
  then show ?case by simp
next
  case (Cons r reqs)
  obtain k p where r: "r = (k, p)" by (cases r)
  from Cons.prems obtain L1 where g: "generateAsset gen k p L = Inr L1"
    and rest: "generate_all gen reqs L1 = Inr L'"
    by (auto simp add: r split: sum.splits)
  from Cons.IH [OF rest] generateAsset_assets [OF g] show ?case by simp
qed

lemma generate_all_keeps:
  "generate_all (generateImage enc) reqs L = Inr L' \<Longrightarrow> has_url L j \<Longrightarrow> has_url L' j"
proof (induction reqs arbitrary: L)
  case Nil
  then show ?case by simp
next
  case (Cons r reqs)
  obtain k p where r: "r = (k, p)" by (cases r)
  from Cons.prems(1) obtain L1 where g: "generateAsset (generateImage enc) k p L = Inr L1"
    and rest: "generate_all (generateImage enc) reqs L1 = Inr L'"
    by (auto simp add: r split: sum.splits)
  from generateAsset_has_url_keep [OF g Cons.prems(2)] have "has_url L1 j" .
  with Cons.IH [OF rest] show ?case .
qed

lemma generate_all_has_url:
  "generate_all (generateImage enc) reqs L = Inr L' \<Longrightarrow> (j, q) \<in> set reqs \<Longrightarrow> has_url L' j"
proof (induction reqs arbitrary: L)
  case Nil
  then show ?case by simp
next
  case (Cons r reqs)
  obtain k p where r: "r = (k, p)" by (cases r)
  from Cons.prems(1) obtain L1 where g: "generateAsset (generateImage enc) k p L = Inr L1"
    and rest: "generate_all (generateImage enc) reqs L1 = Inr L'"
    by (auto simp add: r split: sum.splits)
  show ?case
  proof (cases "(j, q) \<in> set reqs")
    case True
    with Cons.IH [OF rest] show ?thesis .
  next
    case False
    with Cons.prems(2) r have "j = k" by simp
    with generateAsset_has_url_own [OF g] have "has_url L1 j" by simp
    with generate_all_keeps [OF rest] show ?thesis .
  qed
qed

lemma generation_requests_mem:
  "(k, asset) \<in> set xs \<Longrightarrow> asset_prompt asset = Some p \<Longrightarrow> p \<noteq> [] \<Longrightarrow> \<not> loaded asset
     \<Longrightarrow> (k, p) \<in> set (generation_requests xs)"
  by (induction xs rule: generation_requests.induct) (auto split: option.splits)


lemma loadAll_urls:
  assumes mem: "(k, asset) \<in> set (assets L)"
    and pr: "truthy (asset_prompt asset)" and nl: "\<not> loaded asset"
    and run: "loadAll (generateImage enc) L = Inr (L', calls)"
  shows "\<exists>u. url_to_load L' k asset = Some u \<and> u \<noteq> []"
proof -
  from run have g: "generate_all (generateImage enc) (generation_requests (assets L)) L = Inr L'"
    by (auto simp add: loadAll_def split: sum.splits)
  from pr obtain p where p: "asset_prompt asset = Some p" "p \<noteq> []"
    by (cases "asset_prompt asset") simp_all
  from generation_requests_mem [OF mem p nl]
  have "(k, p) \<in> set (generation_requests (assets L))" .
  from generate_all_has_url [OF g this] obtain u
    where u: "map_of (generatedAssets L') k = Some u" "u \<noteq> []"
    by (auto simp add: has_url_def)
  show ?thesis
  proof (cases "truthy (url asset)")
    case True
    then show ?thesis by (cases "url asset") (simp_all add: url_to_load_def)
  next
    case False
    with u show ?thesis by (simp add: url_to_load_def)
  qed
qed

text \<open>
  Claim C8 (as amended). \<open>generateAsset\<close> never rejects and never leaves its key
  unmapped: for every key, prompt and loader it resolves with \<open>generatedAssets\<close>
  mapping the key to a non-empty URL, the generated one when \<open>generateImage\<close> succeeds
  and the placeholder fallback built from the key when it throws. Hence \<open>loadAll\<close>
  never rejects in its generation phase, and every asset queued with a non-empty prompt
  and not loaded yet has a non-empty URL for the Phaser loader afterwards.
\<close>

theorem generateAsset_always_maps_key:
  "(\<exists>u. generateAsset (generateImage enc) k p L
            = Inr (L\<lparr> generatedAssets := AList.update k u (generatedAssets L) \<rparr>)
         \<and> map_of (AList.update k u (generatedAssets L)) k = Some u
         \<and> u \<noteq> []
         \<and> (\<forall>v. generateImage enc p = Inr v \<longrightarrow> u = v)
         \<and> (\<forall>e. generateImage enc p = Inl e \<longrightarrow>
               u = ''https://via.placeholder.com/400x400?text=Failed+to+generate+'' @ k))
   \<and> (\<exists>L' calls. loadAll (generateImage enc) L = Inr (L', calls)
         \<and> (\<forall>(j, asset) \<in> set (assets L).
               truthy (asset_prompt asset) \<and> \<not> loaded asset \<longrightarrow>
                 (\<exists>u. url_to_load L' j asset = Some u \<and> u \<noteq> [])))"
proof (rule conjI)
  show "\<exists>u. generateAsset (generateImage enc) k p L
            = Inr (L\<lparr> generatedAssets := AList.update k u (generatedAssets L) \<rparr>)
         \<and> map_of (AList.update k u (generatedAssets L)) k = Some u
         \<and> u \<noteq> []
         \<and> (\<forall>v. generateImage enc p = Inr v \<longrightarrow> u = v)
         \<and> (\<forall>e. generateImage enc p = Inl e \<longrightarrow>
               u = ''https://via.placeholder.com/400x400?text=Failed+to+generate+'' @ k)"
  proof (cases "generateImage enc p")
    case (Inl e)
    then show ?thesis
      by (simp add: generateAsset_cases update_conv)
  next
    case (Inr v)
    with generateImage_nonempty [OF Inr] show ?thesis
      by (simp add: generateAsset_cases update_conv)
  qed
next
  obtain L' where g: "generate_all (generateImage enc) (generation_requests (assets L)) L = Inr L'"
    using generate_all_total by blast
  then have run: "loadAll (generateImage enc) L = Inr (L', load_requests L' (assets L'))"
    by (simp add: loadAll_def)
  have "\<forall>(j, asset) \<in> set (assets L).
      truthy (asset_prompt asset) \<and> \<not> loaded asset \<longrightarrow>
        (\<exists>u. url_to_load L' j asset = Some u \<and> u \<noteq> [])"
    using loadAll_urls [OF _ _ _ run] by blast
  with run show "\<exists>L' calls. loadAll (generateImage enc) L = Inr (L', calls)
         \<and> (\<forall>(j, asset) \<in> set (assets L).
               truthy (asset_prompt asset) \<and> \<not> loaded asset \<longrightarrow>
                 (\<exists>u. url_to_load L' j asset = Some u \<and> u \<noteq> []))"
    by blast
qed

theorem generateAsset_always_maps_key_witness:
  "generateAsset (generateImage Inr) ''bg_challenge_a'' ''forest'' prompt_loader
     = Inr (prompt_loader\<lparr> generatedAssets :=
              [(''bg_challenge_a'', ''https://via.placeholder.com/400x400?text=forest'')] \<rparr>)
   \<and> generateAsset (generateImage (\<lambda>s. Inl (URIError ''URI malformed''))) ''bg_challenge_a''
        ''forest'' prompt_loader
     = Inr (prompt_loader\<lparr> generatedAssets :=
              [(''bg_challenge_a'',
                ''https://via.placeholder.com/400x400?text=Failed+to+generate+bg_challenge_a'')] \<rparr>)
   \<and> (\<exists>L' calls. loadAll (generateImage Inr) prompt_loader = Inr (L', calls)
         \<and> (\<exists>u. url_to_load L' ''bg_challenge_a'' (the (map_of (assets prompt_loader) ''bg_challenge_a''))
                  = Some u \<and> u \<noteq> []))"
proof -
  have g: "generatedAssets prompt_loader = []"
    by (simp add: prompt_loader_def queueAsset_def new_AssetLoader_def)
  have a: "assets prompt_loader =
      [(''bg_challenge_a'', \<lparr> key = ''bg_challenge_a'', asset_type = IMAGE, url = None,
          asset_prompt = Some ''forest'', frameConfig = None, loaded = False \<rparr>)]"
    by (simp add: prompt_loader_def queueAsset_def new_AssetLoader_def)
  have ok: "generateImage Inr ''forest'' = Inr ''https://via.placeholder.com/400x400?text=forest''"
    by (simp add: generateImage_def)
  have bad: "generateImage (\<lambda>s. Inl (URIError ''URI malformed'')) ''forest''
      = Inl (URIError ''URI malformed'')"
    by (simp add: generateImage_def)
  from generateAsset_always_maps_key [of Inr "''bg_challenge_a''" "''forest''" prompt_loader]
  have 1: "generateAsset (generateImage Inr) ''bg_challenge_a'' ''forest'' prompt_loader
     = Inr (prompt_loader\<lparr> generatedAssets :=
              [(''bg_challenge_a'', ''https://via.placeholder.com/400x400?text=forest'')] \<rparr>)"
    and 3: "\<exists>L' calls. loadAll (generateImage Inr) prompt_loader = Inr (L', calls)
         \<and> (\<exists>u. url_to_load L' ''bg_challenge_a'' (the (map_of (assets prompt_loader) ''bg_challenge_a''))
                  = Some u \<and> u \<noteq> [])"
    by (auto simp add: ok g a)
  from generateAsset_always_maps_key [of "\<lambda>s. Inl (URIError ''URI malformed'')"
      "''bg_challenge_a''" "''forest''" prompt_loader]
  have 2: "generateAsset (generateImage (\<lambda>s. Inl (URIError ''URI malformed''))) ''bg_challenge_a''
        ''forest'' prompt_loader
     = Inr (prompt_loader\<lparr> generatedAssets :=
              [(''bg_challenge_a'',
                ''https://via.placeholder.com/400x400?text=Failed+to+generate+bg_challenge_a'')] \<rparr>)"
    by (auto simp add: bad g)
  from 1 2 3 show ?thesis by blast
qed


text \<open>
  An asset queued with the empty prompt is passed over by both loops of \<open>loadAll\<close>:
  no URL is generated for it and nothing is handed to the Phaser loader.
\<close>

theorem empty_prompt_has_no_url:
  "assets empty_prompt_loader =
     [(''bg_challenge_a'', \<lparr> key = ''bg_challenge_a'', asset_type = IMAGE, url = None,
         asset_prompt = Some [], frameConfig = None, loaded = False \<rparr>)]
   \<and> loadAll (generateImage Inr) empty_prompt_loader = Inr (empty_prompt_loader, [])
   \<and> url_to_load empty_prompt_loader ''bg_challenge_a''
        \<lparr> key = ''bg_challenge_a'', asset_type = IMAGE, url = None,
          asset_prompt = Some [], frameConfig = None, loaded = False \<rparr> = None"
  by (simp add: empty_prompt_loader_def queueAsset_def new_AssetLoader_def loadAll_def
      url_to_load_def)

section \<open>Preloading by URL\<close>


lemma set_update_subset: "set (AList.update k v xs) \<subseteq> insert (k, v) (set xs)"
  by (induction xs) auto

lemma queue_image_url:
  "c \<in> set (queue_image k u) \<Longrightarrow> \<exists>v. u = Some v \<and> v \<noteq> [] \<and> c = QueueAssetWithURL k IMAGE v"
  by (auto simp add: queue_image_def split: option.splits if_splits)

lemma no_prompts_apply:
  "no_prompts L \<Longrightarrow> url_from imgs c \<Longrightarrow> no_prompts (apply_call L c)"
proof (cases c)
  case (QueueAsset k t p)
  assume "url_from imgs c"
  with QueueAsset show ?thesis by simp
next
  case (QueueAssetWithURL k t u)
  assume np: "no_prompts L"
  show ?thesis
    using np set_update_subset [of k "\<lparr> key = k, asset_type = t, url = Some u,
        asset_prompt = None, frameConfig = None, loaded = False \<rparr>" "assets L"]
    by (auto simp add: QueueAssetWithURL no_prompts_def queueAssetWithURL_def)
qed

lemma no_prompts_run:
  "no_prompts L \<Longrightarrow> \<forall>c \<in> set calls. url_from imgs c \<Longrightarrow> no_prompts (run_calls calls L)"
  unfolding run_calls_def
  by (induction calls arbitrary: L) (auto intro: no_prompts_apply)

lemma no_prompts_requests: "\<forall>(k, asset) \<in> set xs. asset_prompt asset = None \<Longrightarrow> generation_requests xs = []"
  by (induction xs rule: generation_requests.induct) auto

lemma url_calls_generate_nothing:
  assumes "\<forall>c \<in> set calls. url_from imgs c"
  shows "generateImage_calls calls = []"
proof -
  have "no_prompts new_AssetLoader"
    by (simp add: no_prompts_def new_AssetLoader_def)
  from no_prompts_run [OF this assms] have "no_prompts (run_calls calls new_AssetLoader)" .
  then show ?thesis
    by (simp add: generateImage_calls_def no_prompts_def no_prompts_requests)
qed

lemma three_images_url_from:
  "\<forall>c \<in> set (queue_image a (avatar imgs) @ queue_image b (background imgs)
        @ queue_image n (npc_image imgs)). url_from imgs c"
  by (auto dest!: queue_image_url)

lemma DynamicScene_preload_urls:
  "preserved_images gd = Some imgs \<Longrightarrow>
     \<forall>c \<in> set (DynamicScene_preload (Some gd) sid loader). url_from imgs c"
  using three_images_url_from [of "''avatar''" imgs "''background''" "''npc''"]
  by (simp add: DynamicScene_preload_def)

lemma queueAssetsForScene_urls:
  "preserved_images gd = Some imgs \<Longrightarrow>
     \<forall>c \<in> set (queueAssetsForScene gd sid loader). url_from imgs c"
  using three_images_url_from [of "''avatar''" imgs "''background''" "''npc''"]
  by (simp add: queueAssetsForScene_def)

lemma ConclusionScene_preload_urls:
  "preserved_images gd = Some imgs \<Longrightarrow>
     \<forall>c \<in> set (ConclusionScene_preload (Some gd) sid loader). url_from imgs c"
  by (auto simp add: ConclusionScene_preload_def dest!: queue_image_url)

lemma ObstacleRunScene_preload_urls:
  "preserved_images gd = Some imgs \<Longrightarrow>
     \<forall>c \<in> set (ObstacleRunScene_preload (Some gd) sid loader). url_from imgs c"
  by (auto simp add: ObstacleRunScene_preload_def split: option.splits dest!: queue_image_url)


text \<open>
  Claim C6. When the preserved game data carries an images record, the preload of every
  scene (DynamicScene, ObstacleRunScene, ConclusionScene, and BootScene's
  \<open>queueAssetsForScene\<close>) makes only \<open>queueAssetWithURL\<close> calls, each with an image
  URL of that one record, whatever the scene id; \<open>queueAsset\<close> is not called, and the
  \<open>loadAll\<close> that follows calls \<open>generateImage\<close> for nothing.
\<close>

theorem preload_queues_urls_only:
  assumes "preserved_images gd = Some imgs"
  shows "(\<forall>c \<in> set (DynamicScene_preload (Some gd) sid loader). url_from imgs c)
       \<and> generateImage_calls (DynamicScene_preload (Some gd) sid loader) = []
       \<and> (\<forall>c \<in> set (ObstacleRunScene_preload (Some gd) sid loader). url_from imgs c)
       \<and> generateImage_calls (ObstacleRunScene_preload (Some gd) sid loader) = []
       \<and> (\<forall>c \<in> set (ConclusionScene_preload (Some gd) sid loader). url_from imgs c)
       \<and> generateImage_calls (ConclusionScene_preload (Some gd) sid loader) = []
       \<and> (\<forall>c \<in> set (queueAssetsForScene gd sid loader). url_from imgs c)
       \<and> generateImage_calls (queueAssetsForScene gd sid loader) = []"
proof -
  have d: "\<forall>c \<in> set (DynamicScene_preload (Some gd) sid loader). url_from imgs c"
    by (rule DynamicScene_preload_urls [OF assms])
  have r: "\<forall>c \<in> set (ObstacleRunScene_preload (Some gd) sid loader). url_from imgs c"
    by (rule ObstacleRunScene_preload_urls [OF assms])
  have c: "\<forall>c \<in> set (ConclusionScene_preload (Some gd) sid loader). url_from imgs c"
    by (rule ConclusionScene_preload_urls [OF assms])
  have b: "\<forall>c \<in> set (queueAssetsForScene gd sid loader). url_from imgs c"
    by (rule queueAssetsForScene_urls [OF assms])
  from d r c b url_calls_generate_nothing [OF d] url_calls_generate_nothing [OF r]
    url_calls_generate_nothing [OF c] url_calls_generate_nothing [OF b]
  show ?thesis by (intro conjI)
qed

lemma knight_preserved_images: "preserved_images knight_response = Some knight_images"
  by (simp add: knight_response_def preserved_images_def convertToSceneStructure_def
      knight_game_def)

theorem preload_queues_urls_only_witness:
  "preserved_images knight_response = Some knight_images
   \<and> ObstacleRunScene_preload (Some knight_response) ''challenge_a'' (Some new_AssetLoader)
       = [ QueueAssetWithURL ''bg_challenge_a'' IMAGE ''assets/background_4fd22bdd.png'',
           QueueAssetWithURL ''obstacle_challenge_a'' IMAGE ''assets/avatar_8bff5423.png'' ]
   \<and> generateImage_calls
        (ObstacleRunScene_preload (Some knight_response) ''challenge_a'' (Some new_AssetLoader))
       = []
   \<and> DynamicScene_preload (Some knight_response) ''quest_start'' (Some new_AssetLoader)
       = [ QueueAssetWithURL ''avatar'' IMAGE ''assets/avatar_8bff5423.png'',
           QueueAssetWithURL ''background'' IMAGE ''assets/background_4fd22bdd.png'',
           QueueAssetWithURL ''npc'' IMAGE ''assets/npc_0f9ce796.png'' ]
   \<and> generateImage_calls
        (DynamicScene_preload (Some knight_response) ''quest_start'' (Some new_AssetLoader))
       = []"
proof -
  have o: "obstacle_scene knight_response ''challenge_a'' = Some (challengeScene knight_game)"
    by (simp add: knight_response_def obstacle_scene_convert)
  have 1: "ObstacleRunScene_preload (Some knight_response) ''challenge_a'' (Some new_AssetLoader)
       = [ QueueAssetWithURL ''bg_challenge_a'' IMAGE ''assets/background_4fd22bdd.png'',
           QueueAssetWithURL ''obstacle_challenge_a'' IMAGE ''assets/avatar_8bff5423.png'' ]"
    by (simp add: ObstacleRunScene_preload_def o knight_preserved_images queue_image_def
        knight_images_def)
  have 2: "DynamicScene_preload (Some knight_response) ''quest_start'' (Some new_AssetLoader)
       = [ QueueAssetWithURL ''avatar'' IMAGE ''assets/avatar_8bff5423.png'',
           QueueAssetWithURL ''background'' IMAGE ''assets/background_4fd22bdd.png'',
           QueueAssetWithURL ''npc'' IMAGE ''assets/npc_0f9ce796.png'' ]"
    by (simp add: DynamicScene_preload_def knight_preserved_images queue_image_def
        knight_images_def)
  from preload_queues_urls_only [OF knight_preserved_images, of "''challenge_a''" "Some new_AssetLoader"]
  have 3: "generateImage_calls
        (ObstacleRunScene_preload (Some knight_response) ''challenge_a'' (Some new_AssetLoader)) = []"
    by blast
  from preload_queues_urls_only [OF knight_preserved_images, of "''quest_start''" "Some new_AssetLoader"]
  have 4: "generateImage_calls
        (DynamicScene_preload (Some knight_response) ''quest_start'' (Some new_AssetLoader)) = []"
    by blast
  from knight_preserved_images 1 2 3 4 show ?thesis by (simp only: simp_thms)
qed

section \<open>The conclusion scene\<close>

lemma avatar_shown_iff:
  "ImageObj ''avatar'' \<in> set (renderConclusionScene gameData sid textures)
     \<longleftrightarrow> sid = ''good_ending'' \<and> ''avatar'' \<in> set textures"
  by (simp add: renderConclusionScene_def Let_def split: option.splits)

text \<open>
  Claim C5 (as amended). In the converted scene graph the good ending's
  \<open>conclusion_text\<close> is climax, ending_good and epilogue joined by blank lines, and the
  bad ending's is climax and ending_bad. Rendering good_ending displays that text; the
  avatar image is displayed exactly when the scene is good_ending and the avatar texture
  exists, and the avatar texture the scene queues is the avatar URL of the game's image
  record.
\<close>

theorem conclusion_text_and_avatar:
  "(\<exists>s. map_of (scenes (scene_dsl (convertToSceneStructure gd p))) ''good_ending''
           = Some (Conclusion s)
        \<and> conclusion_text s
           = climax gd @ nl @ nl @ ending_good gd @ nl @ nl @ epilogue gd
        \<and> TextObj (conclusion_text s)
           \<in> set (renderConclusionScene (convertToSceneStructure gd p) ''good_ending'' textures))
   \<and> (\<exists>s. map_of (scenes (scene_dsl (convertToSceneStructure gd p))) ''bad_ending''
           = Some (Conclusion s)
        \<and> conclusion_text s = climax gd @ nl @ nl @ ending_bad gd)
   \<and> (ImageObj ''avatar''
         \<in> set (renderConclusionScene (convertToSceneStructure gd p) sid textures)
       \<longleftrightarrow> sid = ''good_ending'' \<and> ''avatar'' \<in> set textures)
   \<and> (\<forall>imgs u. images gd = Some imgs \<and> avatar imgs = Some u \<and> u \<noteq> [] \<longrightarrow>
         QueueAssetWithURL ''avatar'' IMAGE u
           \<in> set (ConclusionScene_preload (Some (convertToSceneStructure gd p)) ''good_ending''
                    (Some new_AssetLoader)))"
proof (intro conjI allI impI)
  have sc: "scenes (scene_dsl (convertToSceneStructure gd p)) = build_scenes gd"
    by (simp add: convertToSceneStructure_def)
  have "TextObj (conclusion_text (goodEnding gd))
      \<in> set (renderConclusionScene (convertToSceneStructure gd p) ''good_ending'' textures)"
    by (simp add: renderConclusionScene_def Let_def convertToSceneStructure_def goodEnding_def)
  then show "\<exists>s. map_of (scenes (scene_dsl (convertToSceneStructure gd p))) ''good_ending''
           = Some (Conclusion s)
        \<and> conclusion_text s
           = climax gd @ nl @ nl @ ending_good gd @ nl @ nl @ epilogue gd
        \<and> TextObj (conclusion_text s)
           \<in> set (renderConclusionScene (convertToSceneStructure gd p) ''good_ending'' textures)"
    by (intro exI [of _ "goodEnding gd"]) (simp add: sc map_of_build_scenes goodEnding_def)
  show "\<exists>s. map_of (scenes (scene_dsl (convertToSceneStructure gd p))) ''bad_ending''
           = Some (Conclusion s)
        \<and> conclusion_text s = climax gd @ nl @ nl @ ending_bad gd"
    by (intro exI [of _ "badEnding gd"]) (simp add: sc map_of_build_scenes badEnding_def)
  show "ImageObj ''avatar''
         \<in> set (renderConclusionScene (convertToSceneStructure gd p) sid textures)
       \<longleftrightarrow> sid = ''good_ending'' \<and> ''avatar'' \<in> set textures"
    by (rule avatar_shown_iff)
next
  fix imgs u
  assume "images gd = Some imgs \<and> avatar imgs = Some u \<and> u \<noteq> []"
  then show "QueueAssetWithURL ''avatar'' IMAGE u
           \<in> set (ConclusionScene_preload (Some (convertToSceneStructure gd p)) ''good_ending''
                    (Some new_AssetLoader))"
    by (simp add: ConclusionScene_preload_def preserved_images_def convertToSceneStructure_def
        queue_image_def)
qed

theorem conclusion_text_and_avatar_witness:
  "''avatar'' \<in> set [''avatar'', ''background'']
   \<and> ImageObj ''avatar''
       \<in> set (renderConclusionScene (convertToSceneStructure knight_game knight_prompt)
                ''good_ending'' [''avatar'', ''background''])
   \<and> images knight_game = Some knight_images
   \<and> avatar knight_images = Some ''assets/avatar_8bff5423.png''
   \<and> QueueAssetWithURL ''avatar'' IMAGE ''assets/avatar_8bff5423.png''
       \<in> set (ConclusionScene_preload (Some (convertToSceneStructure knight_game knight_prompt))
                ''good_ending'' (Some new_AssetLoader))"
  using conclusion_text_and_avatar [of knight_game knight_prompt "[''avatar'', ''background'']"
      "''good_ending''"]
  by (simp add: knight_game_def knight_images_def)

text \<open>
  The claim as stated fails when the avatar texture is missing (its file failed to
  load, say): the good ending is rendered, with its text, without the avatar image.
\<close>

theorem good_ending_without_avatar:
  "renderConclusionScene (convertToSceneStructure knight_game knight_prompt) ''good_ending''
     [''background'']
   = [ ImageObj ''background'', RectangleObj 0x000000, TextObj ''Victory!'',
       TextObj (''The ghost rises.'' @ nl @ nl @ ''The curse is lifted.'' @ nl @ nl
                @ ''Dawn returns.''),
       RectangleObj 0x4CAF50, TextObj ''Play Again'' ]
   \<and> ImageObj ''avatar''
       \<notin> set (renderConclusionScene (convertToSceneStructure knight_game knight_prompt)
                ''good_ending'' [''background''])"
  by (simp add: renderConclusionScene_def Let_def convertToSceneStructure_def knight_game_def)


section \<open>The type guard isScene\<close>













section \<open>Generation failure and restart\<close>


text \<open>
  Claim C4. If the backend call fails, for whatever reason, \<open>generateGame\<close> throws
  the error with the fixed message \<open>Failed to generate game. Please try again.\<close> and
  returns no game data; \<open>startGameGeneration\<close> then writes that generic message into
  the error element, shows it, hides the loading screen and shows the prompt again,
  and touches nothing else: no game data is stored and no scene is started.
\<close>

theorem generateGame_failure_is_generic:
  assumes "post p = Inl e"
  shows "generateGame post p = Inl (Error ''Failed to generate game. Please try again.'')
       \<and> (\<forall>g. generateGame post p \<noteq> Inr g)
       \<and> startGameGeneration post p pg =
           pg\<lparr> progress_width := 10,
               error_text := ''Failed to generate game. Please try again.'',
               error_display := ''block'',
               loading_display := ''none'',
               prompt_display := ''flex'' \<rparr>
       \<and> error_text (startGameGeneration post p pg) = ''Failed to generate game. Please try again.''
       \<and> error_display (startGameGeneration post p pg) = ''block''
       \<and> prompt_display (startGameGeneration post p pg) = ''flex''
       \<and> loading_display (startGameGeneration post p pg) = ''none''
       \<and> stored_gameData (startGameGeneration post p pg) = stored_gameData pg
       \<and> boot_gameData (startGameGeneration post p pg) = boot_gameData pg
       \<and> title_gameData (startGameGeneration post p pg) = title_gameData pg
       \<and> shown (startGameGeneration post p pg) = shown pg"
proof -
  have g: "generateGame post p = Inl (Error ''Failed to generate game. Please try again.'')"
    using assms by (simp add: generateGame_def)
  have s: "startGameGeneration post p pg =
           pg\<lparr> progress_width := 10,
               error_text := ''Failed to generate game. Please try again.'',
               error_display := ''block'',
               loading_display := ''none'',
               prompt_display := ''flex'' \<rparr>"
    by (simp add: startGameGeneration_def g updateProgress_def Let_def)
  show ?thesis
    by (simp add: g s)
qed

theorem generateGame_failure_is_generic_witness:
  "failing_backend knight_prompt = Inl (NetworkError ''Request failed with status code 500'')
   \<and> generateGame failing_backend knight_prompt
       = Inl (Error ''Failed to generate game. Please try again.'')
   \<and> submit_prompt failing_backend knight_prompt fresh_page
       = fresh_page\<lparr> progress_width := 10,
           error_text := ''Failed to generate game. Please try again.'',
           error_display := ''block'' \<rparr>"
proof -
  have f: "failing_backend knight_prompt = Inl (NetworkError ''Request failed with status code 500'')"
    by (simp add: failing_backend_def)
  from f generateGame_failure_is_generic [of failing_backend knight_prompt _
      "fresh_page\<lparr> prompt_display := ''none'', loading_display := ''flex'' \<rparr>"]
  show ?thesis
    by (simp add: submit_prompt_def fresh_page_def)
qed













section \<open>Determinism of the composers\<close>





end
